theory Spec2Isabelle
  imports Main "HOL-Library.AList" "HOL-Library.Char_ord" "HOL-Library.List_Lexorder"
begin

section \<open>Readers of clip-retrieval: folder keys, the folder dataset, the archive dataset, batching\<close>

text \<open>
  The module \<^verbatim>\<open>clip_retrieval/clip_inference/reader.py\<close> is embedded function by
  function. Python strings and byte strings are \<open>string\<close> (a list of bytes, text held as
  UTF-8, so that the order of the lists is the order of the code points that Python's
  \<^verbatim>\<open>sorted\<close> uses). A dict is an association list in insertion order, read with
  \<open>map_of\<close> and written with \<open>AList.update\<close>, which keeps the place of a key that
  is written again, as a Python dict does. Every exception the code can raise is a value.
\<close>

subsection \<open>Exceptions\<close>

text \<open>
  What the injected functions and the file system raise. \<^verbatim>\<open>UnidentifiedImageError\<close>
  and \<^verbatim>\<open>OSError\<close> are the two classes named by the \<^verbatim>\<open>except\<close> clause of
  \<^verbatim>\<open>__getitem__\<close>; \<open>OtherError\<close> stands for any exception outside these classes. Each
  carries the text that \<^verbatim>\<open>str(e)\<close> gives.
\<close>

datatype exn = UnidentifiedImageError string | OSError string | OtherError string

datatype py_error =
    KeyError string
  | IndexError
  | TypeError
  | AttributeError
  | ValueError
  | Uncaught exn

subsection \<open>The folder and its files\<close>

text \<open>
  A \<^verbatim>\<open>Path\<close> found below the root is the root, as \<^verbatim>\<open>str(Path(folder))\<close> writes it
  (no trailing slash, \<^verbatim>\<open>.\<close> for the current directory), together with the path
  relative to it, written with forward slashes;
  \<^verbatim>\<open>relative_to(path).as_posix()\<close> reads the second part. \<^verbatim>\<open>str\<close> of the joined path
  leaves out a root \<^verbatim>\<open>.\<close> and adds no slash to a root that ends with one
  (\<^verbatim>\<open>/\<close> and \<^verbatim>\<open>//\<close>).
\<close>

datatype fpath = FPath string string

fun relative_to_as_posix :: "fpath \<Rightarrow> string" where
  "relative_to_as_posix (FPath root rel) = rel"

fun path_str :: "fpath \<Rightarrow> string" where
  "path_str (FPath root rel) =
     (if root = ''.'' then rel
      else if root \<noteq> [] \<and> last root = CHR ''/'' then root @ rel
      else root @ ''/'' @ rel)"

text \<open>
  The folder: its root as \<^verbatim>\<open>str(Path(folder))\<close> and the relative paths of everything
  below it, in the order the file system lists them.
\<close>

record folder =
  root :: string
  listing :: "string list"

definition ends_with :: "string \<Rightarrow> string \<Rightarrow> bool" where
  "ends_with s suf \<longleftrightarrow>
     length suf \<le> length s \<and> drop (length s - length suf) s = suf"

text \<open>
  \<^verbatim>\<open>path.glob("**/*.<ext>")\<close>: every entry at any depth whose name ends with a dot and
  the extension, compared byte by byte (a POSIX file system; the name before the dot may
  be empty).
\<close>

definition glob :: "folder \<Rightarrow> string \<Rightarrow> fpath list" where
  "glob fo ext =
     map (FPath (root fo)) (filter (\<lambda>rel. ends_with rel (''.'' @ ext)) (listing fo))"

type_synonym file_map = "(string \<times> fpath) list"

text \<open>The dict comprehension \<^verbatim>\<open>{f.relative_to(path).as_posix(): f for f in files}\<close>.\<close>

definition files_dict :: "fpath list \<Rightarrow> file_map" where
  "files_dict files = foldl (\<lambda>d f. AList.update (relative_to_as_posix f) f d) [] files"

definition dict_keys :: "file_map \<Rightarrow> string list" where
  "dict_keys d = map fst d"

definition image_patterns :: "string list" where
  "image_patterns =
     [''png'', ''jpg'', ''jpeg'', ''bmp'', ''webp'', ''PNG'', ''JPG'', ''JPEG'', ''BMP'', ''WEBP'']"

definition glob_text :: "folder \<Rightarrow> file_map" where
  "glob_text fo = files_dict (glob fo ''txt'')"

definition glob_image :: "folder \<Rightarrow> file_map" where
  "glob_image fo = files_dict (concat (map (glob fo) image_patterns))"

definition glob_metadata :: "folder \<Rightarrow> file_map" where
  "glob_metadata fo = files_dict (glob fo ''json'')"

text \<open>
  The local function \<^verbatim>\<open>join\<close> of \<^verbatim>\<open>folder_to_keys\<close>:
  \<^verbatim>\<open>new_set & keys if keys is not None else new_set\<close>.
\<close>

definition join :: "string list option \<Rightarrow> string list \<Rightarrow> string list" where
  "join keys new_set =
     (case keys of None \<Rightarrow> new_set | Some ks \<Rightarrow> filter (\<lambda>k. k \<in> set ks) new_set)"

text \<open>
  \<^verbatim>\<open>folder_to_keys\<close>. A file map is \<open>None\<close> when its modality is disabled, as in the
  source. The keys start as \<open>None\<close> and are set by the first enabled modality of the
  \<^verbatim>\<open>if / elif / elif\<close> chain; \<^verbatim>\<open>sorted(None)\<close> raises \<^verbatim>\<open>TypeError\<close>.
\<close>

definition folder_to_keys ::
  "folder \<Rightarrow> bool \<Rightarrow> bool \<Rightarrow> bool \<Rightarrow>
   py_error + (string list \<times> file_map option \<times> file_map option \<times> file_map option)" where
  "folder_to_keys fo enable_text enable_image enable_metadata =
     (let text_files = (if enable_text then Some (glob_text fo) else None);
          image_files = (if enable_image then Some (glob_image fo) else None);
          metadata_files = (if enable_metadata then Some (glob_metadata fo) else None);
          keys0 = None;
          keys1 = (if enable_text then Some (join keys0 (dict_keys (glob_text fo)))
                   else if enable_image then Some (join keys0 (dict_keys (glob_image fo)))
                   else if enable_metadata then Some (join keys0 (dict_keys (glob_metadata fo)))
                   else keys0)
      in case keys1 of
           None \<Rightarrow> Inl TypeError
         | Some ks \<Rightarrow> Inr (sort ks, text_files, image_files, metadata_files))"

subsection \<open>The folder dataset\<close>

text \<open>
  What \<^verbatim>\<open>__getitem__\<close> and \<^verbatim>\<open>preprocess_dataset\<close> use from outside the module:
  \<^verbatim>\<open>Image.open\<close> on a file and on the bytes of an archive field, \<^verbatim>\<open>Path.read_text\<close>,
  \<^verbatim>\<open>bytes.decode("utf-8")\<close>, and the two injected functions. Each either returns or
  raises.
\<close>

record ('pil, 'img, 'tok) world =
  image_open :: "fpath \<Rightarrow> exn + 'pil"
  image_open_bytes :: "string \<Rightarrow> exn + 'pil"
  read_text :: "fpath \<Rightarrow> exn + string"
  decode_utf8 :: "string \<Rightarrow> exn + string"
  preprocess :: "'pil \<Rightarrow> exn + 'img"
  tokenizer :: "string list \<Rightarrow> exn + 'tok list"

text \<open>
  A value stored in an output dict, and the output dict itself. \<open>NoneValue\<close> is
  Python's \<^verbatim>\<open>None\<close> stored as a value.
\<close>

datatype ('img, 'tok) field = ImageTensor 'img | Tokens 'tok | Str string | NoneValue

type_synonym ('img, 'tok) sample = "(string \<times> ('img, 'tok) field) list"

text \<open>
  The attributes of an \<^verbatim>\<open>ImageDataset\<close>. A file map that \<^verbatim>\<open>__init__\<close> does not set
  (its modality is disabled) is \<open>None\<close>.
\<close>

record image_dataset =
  self_keys :: "string list"
  self_enable_text :: bool
  self_enable_image :: bool
  self_enable_metadata :: bool
  self_text_files :: "file_map option"
  self_image_files :: "file_map option"
  self_metadata_files :: "file_map option"

text \<open>The comprehension \<^verbatim>\<open>{k: v for k, v in files.items() if k in keys_set}\<close>.\<close>

definition restrict_files :: "string set \<Rightarrow> file_map \<Rightarrow> file_map" where
  "restrict_files keys_set files = filter (\<lambda>(k, v). k \<in> keys_set) files"

text \<open>The default value of the parameter \<^verbatim>\<open>input_sampler\<close>: \<^verbatim>\<open>lambda a: a\<close>.\<close>

definition default_input_sampler :: "string list \<Rightarrow> string list" where
  "default_input_sampler a = a"

definition ImageDataset_init ::
  "folder \<Rightarrow> bool \<Rightarrow> bool \<Rightarrow> bool \<Rightarrow> (string list \<Rightarrow> string list) \<Rightarrow>
   py_error + image_dataset" where
  "ImageDataset_init fo enable_text enable_image enable_metadata input_sampler =
     (case folder_to_keys fo enable_text enable_image enable_metadata of
        Inl e \<Rightarrow> Inl e
      | Inr (keys, text_files, image_files, metadata_files) \<Rightarrow>
          (let keys' = input_sampler keys;
               keys_set = set keys'
           in Inr \<lparr>self_keys = keys',
                   self_enable_text = enable_text,
                   self_enable_image = enable_image,
                   self_enable_metadata = enable_metadata,
                   self_text_files =
                     (if enable_text then map_option (restrict_files keys_set) text_files
                      else None),
                   self_image_files =
                     (if enable_image then map_option (restrict_files keys_set) image_files
                      else None),
                   self_metadata_files =
                     (if enable_metadata
                      then map_option (restrict_files keys_set) metadata_files
                      else None)\<rparr>))"

definition len :: "image_dataset \<Rightarrow> nat" where
  "len ds = length (self_keys ds)"

text \<open>Python's \<^verbatim>\<open>xs[i]\<close> on a list: a negative index counts from the end.\<close>

definition py_index :: "'a list \<Rightarrow> int \<Rightarrow> 'a option" where
  "py_index xs i =
     (if 0 \<le> i \<and> i < int (length xs) then Some (xs ! nat i)
      else if i < 0 \<and> - int (length xs) \<le> i then Some (xs ! nat (int (length xs) + i))
      else None)"

text \<open>
  \<^verbatim>\<open>self.files[key]\<close>: reading an attribute that was never set raises
  \<^verbatim>\<open>AttributeError\<close>, a key that the dict lacks \<^verbatim>\<open>KeyError\<close>.
\<close>

definition file_lookup :: "file_map option \<Rightarrow> string \<Rightarrow> py_error + fpath" where
  "file_lookup files key =
     (case files of
        None \<Rightarrow> Inl AttributeError
      | Some d \<Rightarrow> (case map_of d key of None \<Rightarrow> Inl (KeyError key) | Some f \<Rightarrow> Inr f))"

fun exn_str :: "exn \<Rightarrow> string" where
  "exn_str (UnidentifiedImageError m) = m"
| "exn_str (OSError m) = m"
| "exn_str (OtherError m) = m"

text \<open>The classes of \<^verbatim>\<open>except (UnidentifiedImageError, OSError)\<close>.\<close>

fun caught :: "exn \<Rightarrow> bool" where
  "caught (UnidentifiedImageError m) = True"
| "caught (OSError m) = True"
| "caught (OtherError m) = False"

definition failed_message :: "fpath \<Rightarrow> exn \<Rightarrow> string" where
  "failed_message image_file e =
     ''Failed to load image '' @ path_str image_file @ ''. Error: '' @ exn_str e
       @ ''. Skipping.''"

text \<open>The body of the \<^verbatim>\<open>try\<close>: \<^verbatim>\<open>self.image_transform(Image.open(image_file))\<close>.\<close>

definition load_image :: "('pil, 'img, 'tok) world \<Rightarrow> fpath \<Rightarrow> exn + 'img" where
  "load_image w image_file =
     (case image_open w image_file of Inl e \<Rightarrow> Inl e | Inr im \<Rightarrow> preprocess w im)"

text \<open>\<^verbatim>\<open>self.tokenizer = lambda text: tokenizer([text])[0]\<close>.\<close>

definition tokenize_one :: "('pil, 'img, 'tok) world \<Rightarrow> string \<Rightarrow> py_error + 'tok" where
  "tokenize_one w text =
     (case tokenizer w [text] of
        Inl e \<Rightarrow> Inl (Uncaught e)
      | Inr ts \<Rightarrow> (case ts of [] \<Rightarrow> Inl IndexError | t # _ \<Rightarrow> Inr t))"

text \<open>
  The three blocks of \<^verbatim>\<open>__getitem__\<close>. The image block either raises, returns
  \<open>None\<close> from the whole call after printing one line, or goes on with the output dict;
  the result is paired with the lines printed.
\<close>

definition getitem_image ::
  "('pil, 'img, 'tok) world \<Rightarrow> image_dataset \<Rightarrow> string \<Rightarrow> ('img, 'tok) sample \<Rightarrow>
   (py_error + ('img, 'tok) sample option) \<times> string list" where
  "getitem_image w ds key output =
     (if self_enable_image ds then
        (case file_lookup (self_image_files ds) key of
           Inl e \<Rightarrow> (Inl e, [])
         | Inr image_file \<Rightarrow>
             (case load_image w image_file of
                Inl e \<Rightarrow>
                  (if caught e then (Inr None, [failed_message image_file e])
                   else (Inl (Uncaught e), []))
              | Inr image_tensor \<Rightarrow>
                  (Inr (Some (AList.update ''image_tensor'' (ImageTensor image_tensor)
                          (AList.update ''image_filename'' (Str (path_str image_file))
                             output))), [])))
      else (Inr (Some output), []))"

definition getitem_text ::
  "('pil, 'img, 'tok) world \<Rightarrow> image_dataset \<Rightarrow> string \<Rightarrow> ('img, 'tok) sample \<Rightarrow>
   py_error + ('img, 'tok) sample" where
  "getitem_text w ds key output =
     (if self_enable_text ds then
        (case file_lookup (self_text_files ds) key of
           Inl e \<Rightarrow> Inl e
         | Inr text_file \<Rightarrow>
             (case read_text w text_file of
                Inl e \<Rightarrow> Inl (Uncaught e)
              | Inr caption \<Rightarrow>
                  (case tokenize_one w caption of
                     Inl e \<Rightarrow> Inl e
                   | Inr tokenized_text \<Rightarrow>
                       Inr (AList.update ''text'' (Str caption)
                              (AList.update ''text_tokens'' (Tokens tokenized_text)
                                 output)))))
      else Inr output)"

definition getitem_metadata ::
  "('pil, 'img, 'tok) world \<Rightarrow> image_dataset \<Rightarrow> string \<Rightarrow> ('img, 'tok) sample \<Rightarrow>
   py_error + ('img, 'tok) sample" where
  "getitem_metadata w ds key output =
     (if self_enable_metadata ds then
        (case file_lookup (self_metadata_files ds) key of
           Inl e \<Rightarrow> Inl e
         | Inr metadata_file \<Rightarrow>
             (case read_text w metadata_file of
                Inl e \<Rightarrow> Inl (Uncaught e)
              | Inr metadata \<Rightarrow> Inr (AList.update ''metadata'' (Str metadata) output)))
      else Inr output)"

text \<open>
  \<^verbatim>\<open>__getitem__\<close>: \<open>Inl\<close> is an exception that leaves the call, \<open>Inr None\<close> the
  return of \<open>None\<close>, \<open>Inr (Some output)\<close> the return of the output dict. The second
  component holds the lines printed.
\<close>

definition getitem ::
  "('pil, 'img, 'tok) world \<Rightarrow> image_dataset \<Rightarrow> int \<Rightarrow>
   (py_error + ('img, 'tok) sample option) \<times> string list" where
  "getitem w ds ind =
     (case py_index (self_keys ds) ind of
        None \<Rightarrow> (Inl IndexError, [])
      | Some key \<Rightarrow>
          (case getitem_image w ds key [] of
             (Inl e, printed) \<Rightarrow> (Inl e, printed)
           | (Inr None, printed) \<Rightarrow> (Inr None, printed)
           | (Inr (Some output1), printed) \<Rightarrow>
               (case getitem_text w ds key output1 of
                  Inl e \<Rightarrow> (Inl e, printed)
                | Inr output2 \<Rightarrow>
                    (case getitem_metadata w ds key output2 of
                       Inl e \<Rightarrow> (Inl e, printed)
                     | Inr output3 \<Rightarrow> (Inr (Some output3), printed)))))"

subsection \<open>The archive dataset\<close>

text \<open>
  An archive entry is a dict from field names to bytes (and \<^verbatim>\<open>__key__\<close> to the entry's
  name). The call \<^verbatim>\<open>wds.WebDataset(urls, cache_dir=..., cache_size=..., handler=...)\<close>
  is recorded with its arguments; the entries that the library then yields for this call
  are given by the parameter \<open>read_archives\<close>.
\<close>

type_synonym entry = "(string \<times> string) list"

record webdataset_call =
  wds_urls :: "string list"
  wds_cache_dir :: "string option"
  wds_cache_size :: nat

definition filter_dataset ::
  "bool \<Rightarrow> bool \<Rightarrow> string \<Rightarrow> string \<Rightarrow> bool \<Rightarrow> entry \<Rightarrow> bool" where
  "filter_dataset enable_text enable_image image_key caption_key enable_metadata item =
     (if enable_text \<and> map_of item caption_key = None then False
      else if enable_image \<and> map_of item image_key = None then False
      else if enable_metadata \<and> map_of item ''json'' = None then False
      else True)"

definition item_lookup :: "entry \<Rightarrow> string \<Rightarrow> py_error + string" where
  "item_lookup item key =
     (case map_of item key of None \<Rightarrow> Inl (KeyError key) | Some v \<Rightarrow> Inr v)"

definition preprocess_image ::
  "('pil, 'img, 'tok) world \<Rightarrow> bool \<Rightarrow> string \<Rightarrow> entry \<Rightarrow> ('img, 'tok) sample \<Rightarrow>
   py_error + ('img, 'tok) sample" where
  "preprocess_image w enable_image image_key item output =
     (if enable_image then
        (case item_lookup item image_key of
           Inl e \<Rightarrow> Inl e
         | Inr image_data \<Rightarrow>
             (case image_open_bytes w image_data of
                Inl e \<Rightarrow> Inl (Uncaught e)
              | Inr image' \<Rightarrow>
                  (case preprocess w image' of
                     Inl e \<Rightarrow> Inl (Uncaught e)
                   | Inr image_tensor \<Rightarrow>
                       (case item_lookup item ''__key__'' of
                          Inl e \<Rightarrow> Inl e
                        | Inr name \<Rightarrow>
                            Inr (AList.update ''image_tensor'' (ImageTensor image_tensor)
                                   (AList.update ''image_filename'' (Str name) output))))))
      else Inr output)"

definition preprocess_text ::
  "('pil, 'img, 'tok) world \<Rightarrow> bool \<Rightarrow> string \<Rightarrow> entry \<Rightarrow> ('img, 'tok) sample \<Rightarrow>
   py_error + ('img, 'tok) sample" where
  "preprocess_text w enable_text caption_key item output =
     (if enable_text then
        (case item_lookup item caption_key of
           Inl e \<Rightarrow> Inl e
         | Inr text \<Rightarrow>
             (case decode_utf8 w text of
                Inl e \<Rightarrow> Inl (Uncaught e)
              | Inr caption \<Rightarrow>
                  (case tokenize_one w caption of
                     Inl e \<Rightarrow> Inl e
                   | Inr tokenized_text \<Rightarrow>
                       Inr (AList.update ''text'' (Str caption)
                              (AList.update ''text_tokens'' (Tokens tokenized_text)
                                 output)))))
      else Inr output)"

definition preprocess_metadata ::
  "('pil, 'img, 'tok) world \<Rightarrow> bool \<Rightarrow> entry \<Rightarrow> ('img, 'tok) sample \<Rightarrow>
   py_error + ('img, 'tok) sample" where
  "preprocess_metadata w enable_metadata item output =
     (if enable_metadata then
        (case item_lookup item ''json'' of
           Inl e \<Rightarrow> Inl e
         | Inr metadata_file \<Rightarrow>
             (case decode_utf8 w metadata_file of
                Inl e \<Rightarrow> Inl (Uncaught e)
              | Inr metadata \<Rightarrow> Inr (AList.update ''metadata'' (Str metadata) output)))
      else Inr output)"

definition preprocess_dataset ::
  "('pil, 'img, 'tok) world \<Rightarrow> bool \<Rightarrow> bool \<Rightarrow> string \<Rightarrow> string \<Rightarrow> bool \<Rightarrow> entry \<Rightarrow>
   py_error + ('img, 'tok) sample" where
  "preprocess_dataset w enable_text enable_image image_key caption_key enable_metadata item =
     (case preprocess_image w enable_image image_key item [] of
        Inl e \<Rightarrow> Inl e
      | Inr output1 \<Rightarrow>
          (case preprocess_text w enable_text caption_key item output1 of
             Inl e \<Rightarrow> Inl e
           | Inr output2 \<Rightarrow> preprocess_metadata w enable_metadata item output2))"

text \<open>
  \<^verbatim>\<open>dataset.select(f)\<close> keeps the entries on which \<open>f\<close> is true.
  \<^verbatim>\<open>dataset.map(f, handler=warn_and_continue)\<close> calls \<open>f\<close> on each entry that reaches
  it, in order; an entry on which \<open>f\<close> raises is warned about and skipped; into the dict
  that \<open>f\<close> returns the library writes the name of the entry,
  \<^verbatim>\<open>result["__key__"] = sample.get("__key__")\<close>, before it yields it. The model keeps the
  entries \<open>f\<close> was called on next to what is yielded.
\<close>

definition select :: "('a \<Rightarrow> bool) \<Rightarrow> 'a list \<Rightarrow> 'a list" where
  "select f dataset = filter f dataset"

definition sample_get_key :: "entry \<Rightarrow> ('img, 'tok) field" where
  "sample_get_key item =
     (case map_of item ''__key__'' of None \<Rightarrow> NoneValue | Some name \<Rightarrow> Str name)"

fun map_warn_and_continue ::
  "(entry \<Rightarrow> py_error + ('img, 'tok) sample) \<Rightarrow> entry list \<Rightarrow>
   ('img, 'tok) sample list \<times> entry list" where
  "map_warn_and_continue f [] = ([], [])"
| "map_warn_and_continue f (x # xs) =
     (case map_warn_and_continue f xs of
        (ys, called) \<Rightarrow>
          (case f x of
             Inl e \<Rightarrow> (ys, x # called)
           | Inr y \<Rightarrow> (AList.update ''__key__'' (sample_get_key x) y # ys, x # called)))"

text \<open>
  The constructor \<^verbatim>\<open>wds.WebDataset\<close>: it reads the first locator when it is called
  (\<^verbatim>\<open>self.urls[0]\<close>), so an empty list of locators raises \<^verbatim>\<open>IndexError\<close>; otherwise
  the dataset yields the entries of the archives.
\<close>

definition WebDataset ::
  "(webdataset_call \<Rightarrow> entry list) \<Rightarrow> webdataset_call \<Rightarrow> py_error + entry list" where
  "WebDataset read_archives call =
     (if wds_urls call = [] then Inl IndexError else Inr (read_archives call))"

text \<open>
  What \<^verbatim>\<open>create_webdataset\<close> builds: the call that opens the archives, the samples the
  returned dataset yields, and the entries \<^verbatim>\<open>preprocess_dataset\<close> was called on.
\<close>

record ('img, 'tok) webdataset =
  wds_call :: webdataset_call
  wds_samples :: "('img, 'tok) sample list"
  wds_decoded :: "entry list"

definition create_webdataset ::
  "('pil, 'img, 'tok) world \<Rightarrow> (webdataset_call \<Rightarrow> entry list) \<Rightarrow> string list \<Rightarrow>
   bool \<Rightarrow> bool \<Rightarrow> string \<Rightarrow> string \<Rightarrow> bool \<Rightarrow> string option \<Rightarrow>
   (string list \<Rightarrow> string list) \<Rightarrow> py_error + ('img, 'tok) webdataset" where
  "create_webdataset w read_archives urls enable_text enable_image image_key caption_key
     enable_metadata cache_path input_sampler =
     (let urls' = input_sampler urls;
          call = \<lparr>wds_urls = urls', wds_cache_dir = cache_path, wds_cache_size = 10 ^ 10\<rparr>
      in case WebDataset read_archives call of
           Inl e \<Rightarrow> Inl e
         | Inr dataset \<Rightarrow>
             (let filtered_dataset =
                    select (filter_dataset enable_text enable_image image_key caption_key
                              enable_metadata) dataset;
                  transformed_dataset =
                    map_warn_and_continue
                      (preprocess_dataset w enable_text enable_image image_key caption_key
                         enable_metadata) filtered_dataset
              in Inr \<lparr>wds_call = call, wds_samples = fst transformed_dataset,
                      wds_decoded = snd transformed_dataset\<rparr>))"

subsection \<open>Batching\<close>

text \<open>
  \<^verbatim>\<open>default_collate\<close> of the loader library on a batch of dicts: the field names are
  those of the first element, \<^verbatim>\<open>{key: collate([d[key] for d in batch]) for key in elem}\<close>.
  An empty batch has no first element (\<^verbatim>\<open>batch[0]\<close> raises \<^verbatim>\<open>IndexError\<close>), and
  \<open>None\<close> is not a type it collates. How the values of one field are stacked into a
  container is the parameter \<open>stack\<close>.
\<close>

fun column :: "string \<Rightarrow> ('img, 'tok) sample option list \<Rightarrow> py_error + ('img, 'tok) field list" where
  "column key [] = Inr []"
| "column key (None # batch) = Inl TypeError"
| "column key (Some d # batch) =
     (case map_of d key of
        None \<Rightarrow> Inl (KeyError key)
      | Some v \<Rightarrow> (case column key batch of Inl e \<Rightarrow> Inl e | Inr vs \<Rightarrow> Inr (v # vs)))"

fun collate_fields ::
  "(('img, 'tok) field list \<Rightarrow> exn + 'c) \<Rightarrow> string list \<Rightarrow> ('img, 'tok) sample option list \<Rightarrow>
   py_error + (string \<times> 'c) list" where
  "collate_fields stack [] batch = Inr []"
| "collate_fields stack (key # keys) batch =
     (case column key batch of
        Inl e \<Rightarrow> Inl e
      | Inr col \<Rightarrow>
          (case stack col of
             Inl e \<Rightarrow> Inl (Uncaught e)
           | Inr c \<Rightarrow>
               (case collate_fields stack keys batch of
                  Inl e \<Rightarrow> Inl e
                | Inr rest \<Rightarrow> Inr ((key, c) # rest))))"

definition default_collate ::
  "(('img, 'tok) field list \<Rightarrow> exn + 'c) \<Rightarrow> ('img, 'tok) sample option list \<Rightarrow>
   py_error + (string \<times> 'c) list" where
  "default_collate stack batch =
     (case batch of
        [] \<Rightarrow> Inl IndexError
      | None # _ \<Rightarrow> Inl TypeError
      | Some elem # _ \<Rightarrow> collate_fields stack (map fst elem) batch)"

text \<open>
  The local function \<^verbatim>\<open>collate_fn\<close> of \<^verbatim>\<open>dataset_to_dataloader\<close>:
  \<^verbatim>\<open>batch = list(filter(lambda x: x is not None, batch)); return default_collate(batch)\<close>.
\<close>

definition collate_fn ::
  "(('img, 'tok) field list \<Rightarrow> exn + 'c) \<Rightarrow> ('img, 'tok) sample option list \<Rightarrow>
   py_error + (string \<times> 'c) list" where
  "collate_fn stack batch = default_collate stack (filter (\<lambda>x. x \<noteq> None) batch)"

text \<open>
  The loader: the items are taken in order (\<^verbatim>\<open>shuffle=False\<close>) in runs of
  \<open>batch_size\<close>, the last run possibly shorter; an exception raised while an item of a
  run is fetched leaves the iteration at that batch. A batch size that is not positive is
  refused when the loader is built. The items are given as the results of fetching each
  one.
\<close>

function chunks :: "nat \<Rightarrow> 'a list \<Rightarrow> 'a list list" where
  "chunks n xs = (if n = 0 \<or> xs = [] then [] else take n xs # chunks n (drop n xs))"
  by pat_completeness auto
termination
  by (relation "measure (\<lambda>(n, xs). length xs)") auto

fun fetch :: "(py_error + 'a) list \<Rightarrow> py_error + 'a list" where
  "fetch [] = Inr []"
| "fetch (Inl e # rs) = Inl e"
| "fetch (Inr x # rs) = (case fetch rs of Inl e \<Rightarrow> Inl e | Inr xs \<Rightarrow> Inr (x # xs))"

definition dataset_to_dataloader ::
  "(('img, 'tok) field list \<Rightarrow> exn + 'c) \<Rightarrow> (py_error + ('img, 'tok) sample option) list \<Rightarrow>
   int \<Rightarrow> string \<Rightarrow> py_error + (py_error + (string \<times> 'c) list) list" where
  "dataset_to_dataloader stack dataset batch_size input_format =
     (if batch_size \<le> 0 then Inl ValueError
      else Inr (map (\<lambda>run. case fetch run of
                              Inl e \<Rightarrow> Inl e
                            | Inr batch \<Rightarrow>
                                (if input_format = ''files'' then collate_fn stack batch
                                 else default_collate stack batch))
                  (chunks (nat batch_size) dataset)))"

text \<open>
  The two readers: what iterating each one yields, batch by batch. \<^verbatim>\<open>__iter__\<close> is a
  generator over the loader, so the iteration ends with the first batch that raises.
\<close>

fun until_raise :: "(py_error + 'a) list \<Rightarrow> (py_error + 'a) list" where
  "until_raise [] = []"
| "until_raise (Inl e # rs) = [Inl e]"
| "until_raise (Inr x # rs) = Inr x # until_raise rs"

definition FilesReader ::
  "('pil, 'img, 'tok) world \<Rightarrow> (('img, 'tok) field list \<Rightarrow> exn + 'c) \<Rightarrow>
   (string list \<Rightarrow> string list) \<Rightarrow> folder \<Rightarrow> int \<Rightarrow> bool \<Rightarrow> bool \<Rightarrow> bool \<Rightarrow>
   py_error + (py_error + (string \<times> 'c) list) list" where
  "FilesReader w stack sampler input_dataset batch_size enable_text enable_image
     enable_metadata =
     (case ImageDataset_init input_dataset enable_text enable_image enable_metadata sampler of
        Inl e \<Rightarrow> Inl e
      | Inr dataset \<Rightarrow>
          (case dataset_to_dataloader stack
                  (map (\<lambda>i. fst (getitem w dataset (int i))) [0..<len dataset])
                  batch_size ''files'' of
             Inl e \<Rightarrow> Inl e
           | Inr dataloader \<Rightarrow> Inr (until_raise dataloader)))"

definition WebdatasetReader ::
  "('pil, 'img, 'tok) world \<Rightarrow> (('img, 'tok) field list \<Rightarrow> exn + 'c) \<Rightarrow>
   (webdataset_call \<Rightarrow> entry list) \<Rightarrow> (string list \<Rightarrow> string list) \<Rightarrow> string list \<Rightarrow>
   int \<Rightarrow> bool \<Rightarrow> bool \<Rightarrow> bool \<Rightarrow> string \<Rightarrow> string \<Rightarrow> string option \<Rightarrow>
   py_error + (py_error + (string \<times> 'c) list) list" where
  "WebdatasetReader w stack read_archives sampler input_dataset batch_size enable_text
     enable_image enable_metadata wds_image_key wds_caption_key cache_path =
     (case create_webdataset w read_archives input_dataset enable_text enable_image
             wds_image_key wds_caption_key enable_metadata cache_path sampler of
        Inl e \<Rightarrow> Inl e
      | Inr dataset \<Rightarrow>
          (case dataset_to_dataloader stack
                  (map (\<lambda>s. Inr (Some s)) (wds_samples dataset)) batch_size ''webdataset'' of
             Inl e \<Rightarrow> Inl e
           | Inr dataloader \<Rightarrow> Inr (until_raise dataloader)))"

subsection \<open>Concrete inputs\<close>

definition example_folder :: folder where
  "example_folder = \<lparr>root = ''data'', listing = [''a.jpg'', ''a.txt'', ''b.jpg'']\<rparr>"

definition example_world :: "(string, nat, nat) world" where
  "example_world =
     \<lparr>image_open = (\<lambda>f. if f = FPath ''data'' ''b.jpg''
                          then Inl (UnidentifiedImageError ''cannot identify image file'')
                          else Inr (path_str f)),
      image_open_bytes = (\<lambda>b. if b = [] then Inl (UnidentifiedImageError ''cannot identify image file'')
                                else Inr b),
      read_text = (\<lambda>f. Inr ''a cat''),
      decode_utf8 = (\<lambda>b. Inr b),
      preprocess = (\<lambda>im. Inr (length im)),
      tokenizer = (\<lambda>texts. Inr (map length texts))\<rparr>"

definition example_image_dataset_value :: image_dataset where
  "example_image_dataset_value =
     \<lparr>self_keys = [''a.jpg'', ''b.jpg''],
          self_enable_text = False, self_enable_image = True, self_enable_metadata = False,
          self_text_files = None,
          self_image_files =
            Some [(''a.jpg'', FPath ''data'' ''a.jpg''), (''b.jpg'', FPath ''data'' ''b.jpg'')],
          self_metadata_files = None\<rparr>"

definition example_entries :: "entry list" where
  "example_entries =
     [[(''__key__'', ''s0''), (''jpg'', ''JFIF''), (''txt'', ''a dog'')],
      [(''__key__'', ''s1''), (''jpg'', ''JFIF'')],
      [(''__key__'', ''s2''), (''txt'', ''a bird'')]]"

definition example_archives :: "webdataset_call \<Rightarrow> entry list" where
  "example_archives call = example_entries"

definition example_stack :: "(nat, nat) field list \<Rightarrow> exn + (nat, nat) field list" where
  "example_stack col = Inr col"

definition example_text_dataset :: image_dataset where
  "example_text_dataset =
     \<lparr>self_keys = [''a.txt''],
      self_enable_text = True, self_enable_image = False, self_enable_metadata = False,
      self_text_files = Some [(''a.txt'', FPath ''data'' ''a.txt'')],
      self_image_files = None,
      self_metadata_files = None\<rparr>"

definition example_text_sample :: "(nat, nat) sample" where
  "example_text_sample = [(''text_tokens'', Tokens 5), (''text'', Str ''a cat'')]"

definition example_text_archive :: "(nat, nat) webdataset" where
  "example_text_archive =
     \<lparr>wds_call = \<lparr>wds_urls = [''shard-0.tar''], wds_cache_dir = None,
                   wds_cache_size = 10000000000\<rparr>,
      wds_samples =
        [[(''text_tokens'', Tokens 5), (''text'', Str ''a dog''), (''__key__'', Str ''s0'')],
         [(''text_tokens'', Tokens 6), (''text'', Str ''a bird''), (''__key__'', Str ''s2'')]],
      wds_decoded =
        [[(''__key__'', ''s0''), (''jpg'', ''JFIF''), (''txt'', ''a dog'')],
         [(''__key__'', ''s2''), (''txt'', ''a bird'')]]\<rparr>"

definition example_archive_sample :: "(nat, nat) sample" where
  "example_archive_sample =
     [(''text_tokens'', Tokens 6), (''text'', Str ''a bird''), (''__key__'', Str ''s2'')]"

text \<open>A folder whose only file has a mixed-case extension.\<close>

definition mixed_case_folder :: folder where
  "mixed_case_folder = \<lparr>root = ''data'', listing = [''a.Png'']\<rparr>"

text \<open>
  The specification's reading of the image extensions, to compare the code with: the
  name, with its ASCII letters lowered, ends with a dot and one of the five extensions.
\<close>

definition ascii_lower :: "char \<Rightarrow> char" where
  "ascii_lower c =
     (if CHR ''A'' \<le> c \<and> c \<le> CHR ''Z'' then char_of (of_char c + (32::nat)) else c)"

definition spec_image_extension :: "string \<Rightarrow> bool" where
  "spec_image_extension rel \<longleftrightarrow>
     (\<exists>ext \<in> set [''png'', ''jpg'', ''jpeg'', ''bmp'', ''webp''].
        ends_with (map ascii_lower rel) (''.'' @ ext))"

text \<open>The records of a batch that are not \<open>None\<close>, in their order.\<close>

definition survivors :: "('img, 'tok) sample option list \<Rightarrow> ('img, 'tok) sample list" where
  "survivors batch = map the (filter (\<lambda>x. x \<noteq> None) batch)"

section \<open>Properties\<close>

subsection \<open>Auxiliary facts\<close>

lemma ends_with_last: "ends_with s suf \<Longrightarrow> suf \<noteq> [] \<Longrightarrow> last s = last suf"
  unfolding ends_with_def
  by (metis last_drop drop_all drop_eq_Nil not_less)

lemma keys_files_dict_acc:
  "fst ` set (foldl (\<lambda>d f. AList.update (g f) f d) acc fs) = fst ` set acc \<union> g ` set fs"
  by (induction fs arbitrary: acc) (auto simp: dom_update)

lemma distinct_files_dict_acc:
  "distinct (map fst acc) \<Longrightarrow> distinct (map fst (foldl (\<lambda>d f. AList.update (g f) f d) acc fs))"
  by (induction fs arbitrary: acc) (auto simp: distinct_update)

lemma set_dict_keys_files_dict:
  "set (dict_keys (files_dict files)) = relative_to_as_posix ` set files"
  by (simp add: dict_keys_def files_dict_def keys_files_dict_acc)

lemma distinct_dict_keys_files_dict: "distinct (dict_keys (files_dict files))"
  by (simp add: dict_keys_def files_dict_def distinct_files_dict_acc)

lemma rel_glob: "relative_to_as_posix ` set (glob fo ext) = {rel \<in> set (listing fo). ends_with rel (''.'' @ ext)}"
  by (auto simp: glob_def image_iff)

lemma keys_glob_text: "set (dict_keys (glob_text fo)) = {rel \<in> set (listing fo). ends_with rel ''.txt''}"
  using rel_glob[of fo "''txt''"] by (simp add: glob_text_def set_dict_keys_files_dict)

lemma keys_glob_image: "set (dict_keys (glob_image fo)) = {rel \<in> set (listing fo). \<exists>ext \<in> set image_patterns. ends_with rel (''.'' @ ext)}"
  by (auto simp: glob_image_def set_dict_keys_files_dict rel_glob image_Union)

lemma folder_to_keys_cases:
  assumes "folder_to_keys fo et ei em = Inr (keys, tf, imf, mf)"
  shows "\<exists>d. keys = sort (dict_keys (files_dict d))"
  using assms
  by (auto simp: folder_to_keys_def Let_def join_def glob_text_def glob_image_def glob_metadata_def split: if_splits)

subsection \<open>Sorted keys and the sampler\<close>

text \<open>
  Claim C7. Whatever modalities are enabled, the keys that \<^verbatim>\<open>folder_to_keys\<close> returns
  are in lexicographic sorted order (and without repetition); \<^verbatim>\<open>ImageDataset.__init__\<close>
  then applies the sampler to that sorted list, once, and stores the result; the default
  sampler is the identity.
\<close>

theorem keys_sorted_then_sampled:
  assumes "folder_to_keys fo enable_text enable_image enable_metadata = Inr (keys, text_files, image_files, metadata_files)"
  shows "sorted keys \<and> distinct keys \<and>
         (\<exists>ds. ImageDataset_init fo enable_text enable_image enable_metadata input_sampler = Inr ds
               \<and> self_keys ds = input_sampler keys) \<and>
         default_input_sampler keys = keys"
proof -
  obtain d where "keys = sort (dict_keys (files_dict d))"
    using folder_to_keys_cases[OF assms] by blast
  then have "sorted keys" "distinct keys"
    by (simp_all add: distinct_dict_keys_files_dict)
  moreover have "\<exists>ds. ImageDataset_init fo enable_text enable_image enable_metadata input_sampler = Inr ds
               \<and> self_keys ds = input_sampler keys"
    using assms by (simp add: ImageDataset_init_def Let_def)
  ultimately show ?thesis by (simp add: default_input_sampler_def)
qed

lemma example_keys_image: "folder_to_keys example_folder False True False =
    Inr ([''a.jpg'', ''b.jpg''], None,
         Some [(''a.jpg'', FPath ''data'' ''a.jpg''), (''b.jpg'', FPath ''data'' ''b.jpg'')], None)"
  by code_simp

text \<open>The folder \<open>a.jpg, a.txt, b.jpg\<close> read with images only and a reversing sampler.\<close>

theorem keys_sorted_then_sampled_witness:
  "folder_to_keys example_folder False True False =
    Inr ([''a.jpg'', ''b.jpg''], None,
         Some [(''a.jpg'', FPath ''data'' ''a.jpg''), (''b.jpg'', FPath ''data'' ''b.jpg'')], None)
   \<and> sorted [''a.jpg'', ''b.jpg''] \<and> distinct [''a.jpg'', ''b.jpg''] \<and>
   (\<exists>ds. ImageDataset_init example_folder False True False rev = Inr ds
         \<and> self_keys ds = rev [''a.jpg'', ''b.jpg''])"
  using keys_sorted_then_sampled[OF example_keys_image, of rev] example_keys_image by simp

lemma txt_not_image_pattern:
  assumes "ends_with k ''.txt''" "ext \<in> set image_patterns"
  shows "\<not> ends_with k (''.'' @ ext)"
proof
  assume "ends_with k (''.'' @ ext)"
  then have "last k = last (''.'' @ ext)" by (rule ends_with_last) simp
  moreover have "last k = CHR ''t''" using ends_with_last[OF assms(1)] by simp
  ultimately show False using assms(2) by (auto simp: image_patterns_def)
qed

lemma txt_key_not_image:
  "ends_with k ''.txt'' \<Longrightarrow> k \<notin> set (dict_keys (glob_image fo))"
  by (auto simp: keys_glob_image dest: txt_not_image_pattern)

lemma map_of_restrict_files_None:
  "k \<notin> set (dict_keys d) \<Longrightarrow> map_of (restrict_files S d) k = None"
  by (auto simp: restrict_files_def dict_keys_def map_of_eq_None_iff)

lemma py_index_in_set: "py_index xs i = Some x \<Longrightarrow> x \<in> set xs"
  by (auto simp: py_index_def Let_def split: if_splits)

lemma py_index_valid:
  "- int (length xs) \<le> i \<Longrightarrow> i < int (length xs) \<Longrightarrow> \<exists>x. py_index xs i = Some x"
  by (auto simp: py_index_def Let_def)

lemma py_index_invalid:
  "\<not> (- int (length xs) \<le> i \<and> i < int (length xs)) \<Longrightarrow> py_index xs i = None"
  by (auto simp: py_index_def Let_def)

lemma init_text_image:
  "ImageDataset_init fo True True em default_input_sampler =
     Inr \<lparr>self_keys = sort (dict_keys (glob_text fo)),
          self_enable_text = True, self_enable_image = True, self_enable_metadata = em,
          self_text_files = Some (restrict_files (set (dict_keys (glob_text fo))) (glob_text fo)),
          self_image_files = Some (restrict_files (set (dict_keys (glob_text fo))) (glob_image fo)),
          self_metadata_files =
            (if em then Some (restrict_files (set (dict_keys (glob_text fo))) (glob_metadata fo))
             else None)\<rparr>"
  by (simp add: ImageDataset_init_def folder_to_keys_def Let_def join_def default_input_sampler_def)

lemma getitem_missing_image:
  assumes "py_index (self_keys ds) ind = Some key" "self_enable_image ds"
    "self_image_files ds = Some d" "map_of d key = None"
  shows "getitem w ds ind = (Inl (KeyError key), [])"
  using assms by (simp add: getitem_def getitem_image_def file_lookup_def)

lemma getitem_out_of_range:
  "py_index (self_keys ds) ind = None \<Longrightarrow> getitem w ds ind = (Inl IndexError, [])"
  by (simp add: getitem_def)

subsection \<open>Text and image enabled together\<close>

text \<open>
  Claim C2. For a folder that holds at least one \<^verbatim>\<open>.txt\<close> file, read with text and
  image enabled and the identity sampler, the dataset is built and is not empty, every
  call of \<^verbatim>\<open>__getitem__\<close> at an index of the dataset raises \<^verbatim>\<open>KeyError\<close> for a key
  that ends with \<^verbatim>\<open>.txt\<close> and prints nothing, and no call at all returns a record or
  \<open>None\<close>.
\<close>

theorem getitem_text_image_KeyError:
  assumes "rel \<in> set (listing fo)" "ends_with rel ''.txt''"
  shows "\<exists>ds. ImageDataset_init fo True True enable_metadata default_input_sampler = Inr ds
           \<and> 0 < len ds
           \<and> (\<forall>ind. - int (len ds) \<le> ind \<and> ind < int (len ds) \<longrightarrow>
                 (\<exists>key. ends_with key ''.txt'' \<and> getitem w ds ind = (Inl (KeyError key), [])))
           \<and> (\<forall>ind. \<exists>e. fst (getitem w ds ind) = Inl e)"
proof -
  let ?keys = "sort (dict_keys (glob_text fo))"
  let ?imf = "restrict_files (set (dict_keys (glob_text fo))) (glob_image fo)"
  obtain ds where ds: "ImageDataset_init fo True True enable_metadata default_input_sampler = Inr ds"
    and k: "self_keys ds = ?keys" and ei: "self_enable_image ds"
    and imf: "self_image_files ds = Some ?imf"
    by (simp add: init_text_image)
  have "rel \<in> set ?keys" using assms by (simp add: keys_glob_text)
  then have pos: "0 < len ds" by (auto simp: len_def k simp del: set_sort)
  have valid: "\<exists>key. ends_with key ''.txt'' \<and> getitem w ds ind = (Inl (KeyError key), [])"
    if ind_ok: "- int (len ds) \<le> ind \<and> ind < int (len ds)" for ind
  proof -
    obtain key where key: "py_index (self_keys ds) ind = Some key"
      using ind_ok py_index_valid[of "self_keys ds" ind] by (auto simp: len_def)
    then have "key \<in> set ?keys" using py_index_in_set k by metis
    then have key_txt: "ends_with key ''.txt''" by (simp add: keys_glob_text)
    then have "map_of ?imf key = None"
      by (intro map_of_restrict_files_None txt_key_not_image)
    then show ?thesis using getitem_missing_image[OF key ei imf] key_txt by blast
  qed
  have "\<exists>e. fst (getitem w ds ind) = Inl e" for ind
  proof (cases "- int (len ds) \<le> ind \<and> ind < int (len ds)")
    case True
    then show ?thesis using valid by fastforce
  next
    case False
    then have "py_index (self_keys ds) ind = None"
      by (intro py_index_invalid) (simp add: len_def)
    then show ?thesis by (simp add: getitem_out_of_range)
  qed
  then show ?thesis using ds pos valid by blast
qed

text \<open>The folder \<open>a.jpg, a.txt, b.jpg\<close> with text and image enabled.\<close>

theorem getitem_text_image_KeyError_witness:
  "''a.txt'' \<in> set (listing example_folder) \<and> ends_with ''a.txt'' ''.txt'' \<and>
   (\<exists>ds. ImageDataset_init example_folder True True False default_input_sampler = Inr ds
           \<and> 0 < len ds
           \<and> (\<forall>ind. - int (len ds) \<le> ind \<and> ind < int (len ds) \<longrightarrow>
                 (\<exists>key. ends_with key ''.txt''
                    \<and> getitem example_world ds ind = (Inl (KeyError key), [])))
           \<and> (\<forall>ind. \<exists>e. fst (getitem example_world ds ind) = Inl e))"
proof -
  have h1: "''a.txt'' \<in> set (listing example_folder)" by (simp add: example_folder_def)
  have h2: "ends_with ''a.txt'' ''.txt''" by (simp add: ends_with_def)
  show ?thesis
    using h1 h2 getitem_text_image_KeyError[OF h1 h2, of False example_world] by blast
qed

subsection \<open>A corrupt image\<close>

text \<open>
  Claim C4. With image enabled, when the image file of the key at an index is opened
  and opening or transforming it raises \<^verbatim>\<open>UnidentifiedImageError\<close> or \<^verbatim>\<open>OSError\<close>,
  \<^verbatim>\<open>__getitem__\<close> prints one diagnostic line and returns \<open>None\<close>: no exception, no
  partial record.
\<close>

theorem getitem_image_failure_dropped:
  assumes "self_enable_image ds"
    and "py_index (self_keys ds) ind = Some key"
    and "file_lookup (self_image_files ds) key = Inr image_file"
    and "load_image w image_file = Inl e"
    and "caught e"
  shows "getitem w ds ind = (Inr None, [failed_message image_file e])"
  using assms by (simp add: getitem_def getitem_image_def)

lemma example_image_dataset:
  "ImageDataset_init example_folder False True False default_input_sampler =
     Inr \<lparr>self_keys = [''a.jpg'', ''b.jpg''],
          self_enable_text = False, self_enable_image = True, self_enable_metadata = False,
          self_text_files = None,
          self_image_files =
            Some [(''a.jpg'', FPath ''data'' ''a.jpg''), (''b.jpg'', FPath ''data'' ''b.jpg'')],
          self_metadata_files = None\<rparr>"
  by code_simp

text \<open>The folder \<open>a.jpg, a.txt, b.jpg\<close> read with images only; \<open>b.jpg\<close> is corrupt.\<close>

theorem getitem_image_failure_dropped_witness:
  "ImageDataset_init example_folder False True False default_input_sampler
     = Inr example_image_dataset_value \<and>
   self_enable_image example_image_dataset_value \<and>
   py_index (self_keys example_image_dataset_value) 1 = Some ''b.jpg'' \<and>
   file_lookup (self_image_files example_image_dataset_value) ''b.jpg''
     = Inr (FPath ''data'' ''b.jpg'') \<and>
   load_image example_world (FPath ''data'' ''b.jpg'')
     = Inl (UnidentifiedImageError ''cannot identify image file'') \<and>
   caught (UnidentifiedImageError ''cannot identify image file'') \<and>
   getitem example_world example_image_dataset_value 1 =
     (Inr None,
      [''Failed to load image data/b.jpg. Error: cannot identify image file. Skipping.''])"
proof -
  have h0: "ImageDataset_init example_folder False True False default_input_sampler
     = Inr example_image_dataset_value"
    unfolding example_image_dataset_value_def by (rule example_image_dataset)
  have h1: "self_enable_image example_image_dataset_value"
    by (simp add: example_image_dataset_value_def)
  have h2: "py_index (self_keys example_image_dataset_value) 1 = Some ''b.jpg''"
    by (simp add: example_image_dataset_value_def py_index_def)
  have h3: "file_lookup (self_image_files example_image_dataset_value) ''b.jpg''
     = Inr (FPath ''data'' ''b.jpg'')"
    by (simp add: example_image_dataset_value_def file_lookup_def)
  have h4: "load_image example_world (FPath ''data'' ''b.jpg'')
     = Inl (UnidentifiedImageError ''cannot identify image file'')"
    by (simp add: load_image_def example_world_def)
  have h5: "caught (UnidentifiedImageError ''cannot identify image file'')" by simp
  show ?thesis
    using h0 h1 h2 h3 h4 h5 getitem_image_failure_dropped[OF h1 h2 h3 h4 h5]
    by (simp add: failed_message_def)
qed

lemma tokenize_one_Inr:
  "tokenize_one w text = Inr t \<longleftrightarrow> (\<exists>ts. tokenizer w [text] = Inr (t # ts))"
  by (auto simp: tokenize_one_def split: sum.splits list.splits)

lemma getitem_text_Inr:
  assumes "getitem_text w ds key output = Inr output'" "self_enable_text ds"
  shows "\<exists>text_file caption t ts.
           file_lookup (self_text_files ds) key = Inr text_file \<and>
           read_text w text_file = Inr caption \<and>
           tokenizer w [caption] = Inr (t # ts) \<and>
           map_of output' ''text'' = Some (Str caption) \<and>
           map_of output' ''text_tokens'' = Some (Tokens t)"
  using assms
  by (auto simp: getitem_text_def update_conv' tokenize_one_Inr split: sum.splits)

lemma getitem_metadata_Inr:
  assumes "getitem_metadata w ds key output = Inr output'" "k \<noteq> ''metadata''"
  shows "map_of output' k = map_of output k"
  using assms
  by (auto simp: getitem_metadata_def update_conv' split: sum.splits if_splits)

lemma getitem_Some:
  assumes "getitem w ds ind = (Inr (Some output), printed)"
  shows "\<exists>key output1 output2.
           py_index (self_keys ds) ind = Some key \<and>
           getitem_text w ds key output1 = Inr output2 \<and>
           getitem_metadata w ds key output2 = Inr output"
  using assms
  by (auto simp: getitem_def split: option.splits sum.splits prod.splits)

lemma preprocess_text_Inr:
  assumes "preprocess_text w True caption_key item output = Inr output'"
  shows "\<exists>text caption t ts.
           map_of item caption_key = Some text \<and>
           decode_utf8 w text = Inr caption \<and>
           tokenizer w [caption] = Inr (t # ts) \<and>
           map_of output' ''text'' = Some (Str caption) \<and>
           map_of output' ''text_tokens'' = Some (Tokens t)"
  using assms
  by (auto simp: preprocess_text_def item_lookup_def update_conv' tokenize_one_Inr
      split: sum.splits option.splits)

lemma preprocess_metadata_Inr:
  assumes "preprocess_metadata w em item output = Inr output'" "k \<noteq> ''metadata''"
  shows "map_of output' k = map_of output k"
  using assms
  by (auto simp: preprocess_metadata_def update_conv' split: sum.splits if_splits)

lemma preprocess_dataset_Inr:
  assumes "preprocess_dataset w et ei ik ck em item = Inr output"
  shows "\<exists>output1 output2.
           preprocess_text w et ck item output1 = Inr output2 \<and>
           preprocess_metadata w em item output2 = Inr output"
  using assms by (auto simp: preprocess_dataset_def split: sum.splits)

lemma map_warn_and_continue_fst:
  "y \<in> set (fst (map_warn_and_continue f xs)) \<Longrightarrow>
   \<exists>x \<in> set xs. \<exists>y0. f x = Inr y0 \<and> y = AList.update ''__key__'' (sample_get_key x) y0"
  by (induction xs arbitrary: y) (auto split: prod.splits sum.splits)

lemma map_warn_and_continue_snd: "snd (map_warn_and_continue f xs) = xs"
  by (induction xs) (auto split: prod.splits sum.splits)

lemma create_webdataset_empty:
  "input_sampler urls = [] \<Longrightarrow>
   create_webdataset w read_archives urls enable_text enable_image image_key caption_key
     enable_metadata cache_path input_sampler = Inl IndexError"
  by (simp add: create_webdataset_def WebDataset_def)

lemma create_webdataset_fields:
  assumes "create_webdataset w read_archives urls enable_text enable_image image_key
     caption_key enable_metadata cache_path input_sampler = Inr dataset"
  shows "input_sampler urls \<noteq> []"
    and "wds_call dataset = \<lparr>wds_urls = input_sampler urls, wds_cache_dir = cache_path,
                       wds_cache_size = 10 ^ 10\<rparr>"
    and "wds_samples dataset =
          fst (map_warn_and_continue
                 (preprocess_dataset w enable_text enable_image image_key caption_key
                    enable_metadata)
                 (filter (filter_dataset enable_text enable_image image_key caption_key
                            enable_metadata)
                    (read_archives \<lparr>wds_urls = input_sampler urls, wds_cache_dir = cache_path,
                                     wds_cache_size = 10 ^ 10\<rparr>)))"
    and "wds_decoded dataset =
          filter (filter_dataset enable_text enable_image image_key caption_key
                    enable_metadata)
            (read_archives \<lparr>wds_urls = input_sampler urls, wds_cache_dir = cache_path,
                             wds_cache_size = 10 ^ 10\<rparr>)"
  using assms
  by (auto simp: create_webdataset_def WebDataset_def Let_def select_def
      map_warn_and_continue_snd split: if_splits)

lemma create_webdataset_returns:
  "input_sampler urls \<noteq> [] \<Longrightarrow>
   \<exists>dataset. create_webdataset w read_archives urls enable_text enable_image image_key
     caption_key enable_metadata cache_path input_sampler = Inr dataset"
  by (simp add: create_webdataset_def WebDataset_def Let_def)

lemma example_text_archive_created:
  "create_webdataset example_world example_archives [''shard-0.tar''] True False
      ''jpg'' ''txt'' False None default_input_sampler = Inr example_text_archive"
  by (simp add: create_webdataset_def WebDataset_def Let_def select_def filter_dataset_def
      example_archives_def example_entries_def preprocess_dataset_def preprocess_image_def
      preprocess_text_def preprocess_metadata_def item_lookup_def tokenize_one_def
      example_world_def example_text_archive_def default_input_sampler_def sample_get_key_def)

subsection \<open>Captions and tokens\<close>

text \<open>
  Claim C10. With text enabled, a record returned by the folder loader, and every sample
  yielded by the archive loader, holds under \<^verbatim>\<open>text\<close> the whole text read from the text
  file (decoded from the caption field), and under \<^verbatim>\<open>text_tokens\<close> the first element of
  what the injected tokenizer returns on the one-element list of that caption.
\<close>

theorem caption_and_tokens:
  "(self_enable_text ds \<and> getitem w ds ind = (Inr (Some output), printed) \<longrightarrow>
      (\<exists>key text_file caption t ts.
          py_index (self_keys ds) ind = Some key \<and>
          file_lookup (self_text_files ds) key = Inr text_file \<and>
          read_text w text_file = Inr caption \<and>
          tokenizer w [caption] = Inr (t # ts) \<and>
          map_of output ''text'' = Some (Str caption) \<and>
          map_of output ''text_tokens'' = Some (Tokens t)))
   \<and> (create_webdataset w read_archives urls True enable_image image_key caption_key
          enable_metadata cache_path input_sampler = Inr dataset
        \<and> sample \<in> set (wds_samples dataset) \<longrightarrow>
      (\<exists>item text caption t ts.
          item \<in> set (read_archives \<lparr>wds_urls = input_sampler urls,
                        wds_cache_dir = cache_path, wds_cache_size = 10 ^ 10\<rparr>) \<and>
          map_of item caption_key = Some text \<and>
          decode_utf8 w text = Inr caption \<and>
          tokenizer w [caption] = Inr (t # ts) \<and>
          map_of sample ''text'' = Some (Str caption) \<and>
          map_of sample ''text_tokens'' = Some (Tokens t)))"
proof (intro conjI impI)
  assume a: "self_enable_text ds \<and> getitem w ds ind = (Inr (Some output), printed)"
  then obtain key output1 output2 where key: "py_index (self_keys ds) ind = Some key"
    and t: "getitem_text w ds key output1 = Inr output2"
    and m: "getitem_metadata w ds key output2 = Inr output"
    using getitem_Some by blast
  from getitem_text_Inr[OF t] a obtain text_file caption t ts where
    "file_lookup (self_text_files ds) key = Inr text_file"
    "read_text w text_file = Inr caption" "tokenizer w [caption] = Inr (t # ts)"
    "map_of output2 ''text'' = Some (Str caption)"
    "map_of output2 ''text_tokens'' = Some (Tokens t)"
    by blast
  moreover have "map_of output ''text'' = map_of output2 ''text''"
    "map_of output ''text_tokens'' = map_of output2 ''text_tokens''"
    using getitem_metadata_Inr[OF m] by simp_all
  ultimately show "\<exists>key text_file caption t ts.
          py_index (self_keys ds) ind = Some key \<and>
          file_lookup (self_text_files ds) key = Inr text_file \<and>
          read_text w text_file = Inr caption \<and>
          tokenizer w [caption] = Inr (t # ts) \<and>
          map_of output ''text'' = Some (Str caption) \<and>
          map_of output ''text_tokens'' = Some (Tokens t)"
    using key by auto
next
  let ?call = "\<lparr>wds_urls = input_sampler urls,
                        wds_cache_dir = cache_path, wds_cache_size = 10 ^ 10\<rparr>"
  assume a: "create_webdataset w read_archives urls True enable_image image_key caption_key
          enable_metadata cache_path input_sampler = Inr dataset
        \<and> sample \<in> set (wds_samples dataset)"
  then have c: "create_webdataset w read_archives urls True enable_image image_key
          caption_key enable_metadata cache_path input_sampler = Inr dataset"
    and m: "sample \<in> set (wds_samples dataset)"
    by simp_all
  from m have "sample \<in> set (fst (map_warn_and_continue
                 (preprocess_dataset w True enable_image image_key caption_key
                    enable_metadata)
                 (filter (filter_dataset True enable_image image_key caption_key
                            enable_metadata) (read_archives ?call))))"
    unfolding create_webdataset_fields(3)[OF c] .
  from map_warn_and_continue_fst[OF this]
  obtain item sample0 where item: "item \<in> set (read_archives ?call)"
    and p: "preprocess_dataset w True enable_image image_key caption_key enable_metadata item
              = Inr sample0"
    and s0: "sample = AList.update ''__key__'' (sample_get_key item) sample0"
    by auto
  from preprocess_dataset_Inr[OF p] obtain output1 output2 where
    t: "preprocess_text w True caption_key item output1 = Inr output2"
    and m: "preprocess_metadata w enable_metadata item output2 = Inr sample0"
    by blast
  from preprocess_text_Inr[OF t] obtain raw caption t ts where
    "map_of item caption_key = Some raw" "decode_utf8 w raw = Inr caption"
    "tokenizer w [caption] = Inr (t # ts)"
    "map_of output2 ''text'' = Some (Str caption)"
    "map_of output2 ''text_tokens'' = Some (Tokens t)"
    by blast
  moreover have "map_of sample ''text'' = map_of output2 ''text''"
    "map_of sample ''text_tokens'' = map_of output2 ''text_tokens''"
    using preprocess_metadata_Inr[OF m] by (simp_all add: s0 update_conv')
  ultimately show "\<exists>item text caption t ts.
          item \<in> set (read_archives ?call) \<and>
          map_of item caption_key = Some text \<and>
          decode_utf8 w text = Inr caption \<and>
          tokenizer w [caption] = Inr (t # ts) \<and>
          map_of sample ''text'' = Some (Str caption) \<and>
          map_of sample ''text_tokens'' = Some (Tokens t)"
    using item by auto
qed

lemma example_text_dataset_init:
  "ImageDataset_init example_folder True False False default_input_sampler
     = Inr example_text_dataset"
  unfolding example_text_dataset_def by code_simp

lemma example_text_getitem:
  "getitem example_world example_text_dataset 0 = (Inr (Some example_text_sample), [])"
  by (simp add: getitem_def getitem_image_def getitem_text_def getitem_metadata_def
      example_world_def example_text_dataset_def py_index_def file_lookup_def tokenize_one_def
      example_text_sample_def)

text \<open>A folder read with text only, and an archive of three entries read with text only.\<close>

theorem caption_and_tokens_witness:
  "self_enable_text example_text_dataset \<and>
   getitem example_world example_text_dataset 0 = (Inr (Some example_text_sample), []) \<and>
   (\<exists>key text_file caption t ts.
          py_index (self_keys example_text_dataset) 0 = Some key \<and>
          file_lookup (self_text_files example_text_dataset) key = Inr text_file \<and>
          read_text example_world text_file = Inr caption \<and>
          tokenizer example_world [caption] = Inr (t # ts) \<and>
          map_of example_text_sample ''text'' = Some (Str caption) \<and>
          map_of example_text_sample ''text_tokens'' = Some (Tokens t)) \<and>
   create_webdataset example_world example_archives [''shard-0.tar''] True False ''jpg'' ''txt''
     False None default_input_sampler = Inr example_text_archive \<and>
   example_archive_sample \<in> set (wds_samples example_text_archive) \<and>
   (\<exists>item text caption t ts.
          item \<in> set (example_archives \<lparr>wds_urls = default_input_sampler [''shard-0.tar''],
                        wds_cache_dir = None, wds_cache_size = 10 ^ 10\<rparr>) \<and>
          map_of item ''txt'' = Some text \<and>
          decode_utf8 example_world text = Inr caption \<and>
          tokenizer example_world [caption] = Inr (t # ts) \<and>
          map_of example_archive_sample ''text'' = Some (Str caption) \<and>
          map_of example_archive_sample ''text_tokens'' = Some (Tokens t))"
proof -
  have h1: "self_enable_text example_text_dataset" by (simp add: example_text_dataset_def)
  have h2: "example_archive_sample \<in> set (wds_samples example_text_archive)"
    by (simp add: example_text_archive_def example_archive_sample_def)
  show ?thesis
    using h1 h2 example_text_getitem example_text_archive_created
      caption_and_tokens[of example_text_dataset example_world 0 example_text_sample "[]"
        example_archives "[''shard-0.tar'']" False "''jpg''" "''txt''" False None
        default_input_sampler example_text_archive example_archive_sample]
    by blast
qed

subsection \<open>The usable keys\<close>

text \<open>
  Claim C1. The claim asks for the intersection of the keys of the enabled modalities,
  \<open>{a}\<close> for the folder \<open>a.jpg, a.txt, b.jpg\<close> with text and image enabled. The code
  returns for this folder the single key \<open>a.txt\<close>: the keys are the relative paths with
  their extensions, and only the text files contribute, since \<^verbatim>\<open>join\<close> is called once,
  in the first branch of the \<^verbatim>\<open>if / elif\<close> chain, while the keys are still unset.
\<close>

theorem folder_to_keys_text_image_example:
  "folder_to_keys example_folder True True False =
     Inr ([''a.txt''], Some [(''a.txt'', FPath ''data'' ''a.txt'')],
          Some [(''a.jpg'', FPath ''data'' ''a.jpg''), (''b.jpg'', FPath ''data'' ''b.jpg'')],
          None)"
  by code_simp

text \<open>With text enabled the other two flags have no influence on the keys.\<close>

lemma folder_to_keys_text_first:
  "folder_to_keys fo True enable_image enable_metadata =
     Inr (sort (dict_keys (glob_text fo)), Some (glob_text fo),
          (if enable_image then Some (glob_image fo) else None),
          (if enable_metadata then Some (glob_metadata fo) else None))"
  by (simp add: folder_to_keys_def join_def)

subsection \<open>The image files\<close>

text \<open>
  Claim C8, as amended. With image enabled, a relative path is a key of the image-file
  collection exactly when it is listed in the folder and ends with one of the five
  extensions written in lower case or one of the five written in upper case.
\<close>

theorem image_files_by_pattern:
  "\<exists>keys text_files d metadata_files.
     folder_to_keys fo enable_text True enable_metadata
       = Inr (keys, text_files, Some d, metadata_files) \<and>
     (\<forall>rel. rel \<in> set (dict_keys d) \<longleftrightarrow>
        rel \<in> set (listing fo) \<and>
        (ends_with rel ''.png'' \<or> ends_with rel ''.jpg'' \<or> ends_with rel ''.jpeg'' \<or>
         ends_with rel ''.bmp'' \<or> ends_with rel ''.webp'' \<or> ends_with rel ''.PNG'' \<or>
         ends_with rel ''.JPG'' \<or> ends_with rel ''.JPEG'' \<or> ends_with rel ''.BMP'' \<or>
         ends_with rel ''.WEBP''))"
proof -
  have "\<exists>keys text_files metadata_files.
     folder_to_keys fo enable_text True enable_metadata
       = Inr (keys, text_files, Some (glob_image fo), metadata_files)"
    by (simp add: folder_to_keys_def join_def)
  moreover have "rel \<in> set (dict_keys (glob_image fo)) \<longleftrightarrow>
        rel \<in> set (listing fo) \<and>
        (ends_with rel ''.png'' \<or> ends_with rel ''.jpg'' \<or> ends_with rel ''.jpeg'' \<or>
         ends_with rel ''.bmp'' \<or> ends_with rel ''.webp'' \<or> ends_with rel ''.PNG'' \<or>
         ends_with rel ''.JPG'' \<or> ends_with rel ''.JPEG'' \<or> ends_with rel ''.BMP'' \<or>
         ends_with rel ''.WEBP'')" for rel
    unfolding keys_glob_image by (auto simp: image_patterns_def)
  ultimately show ?thesis by blast
qed

text \<open>
  Claim C8 as stated fails: \<open>a.Png\<close> has the extension \<open>png\<close> when compared without
  regard to case, and the image-file collection of its folder is empty.
\<close>

theorem mixed_case_extension_not_included:
  "''a.Png'' \<in> set (listing mixed_case_folder) \<and> spec_image_extension ''a.Png'' \<and>
   folder_to_keys mixed_case_folder False True False = Inr ([], None, Some [], None)"
  by code_simp

subsection \<open>The archive source\<close>

text \<open>
  Claim C9, as amended. Whatever the arguments of \<^verbatim>\<open>create_webdataset\<close>, when it
  returns a dataset (the sampled list of locators is not empty) the archives were opened
  with the sampled locators, the cache directory given by \<^verbatim>\<open>cache_path\<close> and a cache
  size of \<open>10\<^sup>1\<^sup>0\<close> bytes; with an empty list the same call raises \<^verbatim>\<open>IndexError\<close>.
\<close>

theorem cache_size_fixed:
  "(input_sampler urls = [] \<longrightarrow>
      create_webdataset w read_archives urls enable_text enable_image image_key caption_key
        enable_metadata cache_path input_sampler = Inl IndexError) \<and>
   (input_sampler urls \<noteq> [] \<longrightarrow>
      (\<exists>dataset.
         create_webdataset w read_archives urls enable_text enable_image image_key caption_key
           enable_metadata cache_path input_sampler = Inr dataset \<and>
         wds_call dataset =
           \<lparr>wds_urls = input_sampler urls, wds_cache_dir = cache_path,
            wds_cache_size = 10000000000\<rparr>))"
proof (intro conjI impI)
  assume "input_sampler urls = []"
  then show "create_webdataset w read_archives urls enable_text enable_image image_key
        caption_key enable_metadata cache_path input_sampler = Inl IndexError"
    by (rule create_webdataset_empty)
next
  assume "input_sampler urls \<noteq> []"
  from this create_webdataset_returns[of input_sampler urls w read_archives enable_text
        enable_image image_key caption_key enable_metadata cache_path]
  obtain dataset where c: "create_webdataset w read_archives urls enable_text enable_image
        image_key caption_key enable_metadata cache_path input_sampler = Inr dataset"
    by blast
  have "wds_call dataset =
           \<lparr>wds_urls = input_sampler urls, wds_cache_dir = cache_path,
            wds_cache_size = 10000000000\<rparr>"
    using create_webdataset_fields(2)[OF c] by simp
  with c show "\<exists>dataset.
         create_webdataset w read_archives urls enable_text enable_image image_key caption_key
           enable_metadata cache_path input_sampler = Inr dataset \<and>
         wds_call dataset =
           \<lparr>wds_urls = input_sampler urls, wds_cache_dir = cache_path,
            wds_cache_size = 10000000000\<rparr>"
    by blast
qed

text \<open>An archive of one shard, no cache directory.\<close>

theorem cache_size_fixed_witness:
  "default_input_sampler [''shard-0.tar''] \<noteq> [] \<and>
   create_webdataset example_world example_archives [''shard-0.tar''] True False ''jpg'' ''txt''
     False None default_input_sampler = Inr example_text_archive \<and>
   wds_call example_text_archive =
     \<lparr>wds_urls = default_input_sampler [''shard-0.tar''], wds_cache_dir = None,
      wds_cache_size = 10000000000\<rparr>"
proof -
  have h: "default_input_sampler [''shard-0.tar''] \<noteq> []"
    by (simp add: default_input_sampler_def)
  show ?thesis
    using h example_text_archive_created
      cache_size_fixed[of default_input_sampler "[''shard-0.tar'']" example_world
        example_archives True False "''jpg''" "''txt''" False None]
    by auto
qed

text \<open>
  Claim C9 as stated fails: no choice of arguments gives a dataset whose archives were
  opened with a cache size other than \<open>10\<^sup>1\<^sup>0\<close> bytes.
\<close>

theorem cache_size_not_configurable:
  "\<not> (\<exists>(w :: (string, nat, nat) world) read_archives urls enable_text enable_image image_key
        caption_key enable_metadata cache_path input_sampler dataset.
        create_webdataset w read_archives urls enable_text enable_image image_key caption_key
          enable_metadata cache_path input_sampler = Inr dataset \<and>
        wds_cache_size (wds_call dataset) \<noteq> 10000000000)"
proof
  assume "\<exists>(w :: (string, nat, nat) world) read_archives urls enable_text enable_image
        image_key caption_key enable_metadata cache_path input_sampler dataset.
        create_webdataset w read_archives urls enable_text enable_image image_key caption_key
          enable_metadata cache_path input_sampler = Inr dataset \<and>
        wds_cache_size (wds_call dataset) \<noteq> 10000000000"
  then obtain w :: "(string, nat, nat) world" and read_archives urls enable_text enable_image
      image_key caption_key enable_metadata cache_path input_sampler dataset
    where c: "create_webdataset w read_archives urls enable_text enable_image image_key
          caption_key enable_metadata cache_path input_sampler = Inr dataset"
      and n: "wds_cache_size (wds_call dataset) \<noteq> 10000000000"
    by blast
  from create_webdataset_fields(2)[OF c] n show False by simp
qed

text \<open>
  Claim C6. An entry passes \<^verbatim>\<open>filter_dataset\<close> exactly when it has the caption field
  if text is enabled, the image field if image is enabled and the field \<^verbatim>\<open>json\<close> if
  metadata is enabled; and the entries that \<^verbatim>\<open>preprocess_dataset\<close> is called on are
  the entries of the archive stream that pass the filter, in the order of the stream
  (the dataset exists whenever the sampled list of locators is not empty).
\<close>

theorem filter_before_decode:
  "(filter_dataset enable_text enable_image image_key caption_key enable_metadata item \<longleftrightarrow>
      (enable_text \<longrightarrow> caption_key \<in> fst ` set item) \<and>
      (enable_image \<longrightarrow> image_key \<in> fst ` set item) \<and>
      (enable_metadata \<longrightarrow> ''json'' \<in> fst ` set item))
   \<and> (input_sampler urls \<noteq> [] \<longrightarrow>
       (\<exists>dataset.
          create_webdataset w read_archives urls enable_text enable_image image_key
            caption_key enable_metadata cache_path input_sampler = Inr dataset \<and>
          wds_decoded dataset =
            filter (filter_dataset enable_text enable_image image_key caption_key
                      enable_metadata)
              (read_archives \<lparr>wds_urls = input_sampler urls, wds_cache_dir = cache_path,
                               wds_cache_size = 10 ^ 10\<rparr>)))
   \<and> (\<forall>dataset.
         create_webdataset w read_archives urls enable_text enable_image image_key
           caption_key enable_metadata cache_path input_sampler = Inr dataset \<longrightarrow>
         wds_decoded dataset =
           filter (filter_dataset enable_text enable_image image_key caption_key
                     enable_metadata)
             (read_archives \<lparr>wds_urls = input_sampler urls, wds_cache_dir = cache_path,
                              wds_cache_size = 10 ^ 10\<rparr>))"
proof (intro conjI)
  show "filter_dataset enable_text enable_image image_key caption_key enable_metadata item \<longleftrightarrow>
      (enable_text \<longrightarrow> caption_key \<in> fst ` set item) \<and>
      (enable_image \<longrightarrow> image_key \<in> fst ` set item) \<and>
      (enable_metadata \<longrightarrow> ''json'' \<in> fst ` set item)"
    by (auto simp: filter_dataset_def map_of_eq_None_iff)
next
  show "input_sampler urls \<noteq> [] \<longrightarrow>
       (\<exists>dataset.
          create_webdataset w read_archives urls enable_text enable_image image_key
            caption_key enable_metadata cache_path input_sampler = Inr dataset \<and>
          wds_decoded dataset =
            filter (filter_dataset enable_text enable_image image_key caption_key
                      enable_metadata)
              (read_archives \<lparr>wds_urls = input_sampler urls, wds_cache_dir = cache_path,
                               wds_cache_size = 10 ^ 10\<rparr>))"
  proof
    assume "input_sampler urls \<noteq> []"
    from this create_webdataset_returns[of input_sampler urls w read_archives enable_text
        enable_image image_key caption_key enable_metadata cache_path]
    obtain dataset where c: "create_webdataset w read_archives urls enable_text enable_image
          image_key caption_key enable_metadata cache_path input_sampler = Inr dataset"
      by blast
    from c create_webdataset_fields(4)[OF c] show "\<exists>dataset.
          create_webdataset w read_archives urls enable_text enable_image image_key
            caption_key enable_metadata cache_path input_sampler = Inr dataset \<and>
          wds_decoded dataset =
            filter (filter_dataset enable_text enable_image image_key caption_key
                      enable_metadata)
              (read_archives \<lparr>wds_urls = input_sampler urls, wds_cache_dir = cache_path,
                               wds_cache_size = 10 ^ 10\<rparr>)"
      by blast
  qed
next
  show "\<forall>dataset.
         create_webdataset w read_archives urls enable_text enable_image image_key
           caption_key enable_metadata cache_path input_sampler = Inr dataset \<longrightarrow>
         wds_decoded dataset =
           filter (filter_dataset enable_text enable_image image_key caption_key
                     enable_metadata)
             (read_archives \<lparr>wds_urls = input_sampler urls, wds_cache_dir = cache_path,
                              wds_cache_size = 10 ^ 10\<rparr>)"
  proof (intro allI impI)
    fix dataset
    assume a: "create_webdataset w read_archives urls enable_text enable_image image_key
           caption_key enable_metadata cache_path input_sampler = Inr dataset"
    then show "wds_decoded dataset =
           filter (filter_dataset enable_text enable_image image_key caption_key
                     enable_metadata)
             (read_archives \<lparr>wds_urls = input_sampler urls, wds_cache_dir = cache_path,
                              wds_cache_size = 10 ^ 10\<rparr>)"
      by (rule create_webdataset_fields(4))
  qed
qed

text \<open>
  Three entries read with text only: the one without a caption is not decoded, the one
  without an image is.
\<close>

theorem filter_before_decode_witness:
  "filter_dataset True False ''jpg'' ''txt'' False [(''__key__'', ''s2''), (''txt'', ''a bird'')]
   \<and> ''txt'' \<in> fst ` set [(''__key__'', ''s2''), (''txt'', ''a bird'')]
   \<and> ''jpg'' \<notin> fst ` set [(''__key__'', ''s2''), (''txt'', ''a bird'')]
   \<and> \<not> filter_dataset True False ''jpg'' ''txt'' False [(''__key__'', ''s1''), (''jpg'', ''JFIF'')]
   \<and> default_input_sampler [''shard-0.tar''] \<noteq> []
   \<and> create_webdataset example_world example_archives [''shard-0.tar''] True False ''jpg''
        ''txt'' False None default_input_sampler = Inr example_text_archive
   \<and> wds_decoded example_text_archive =
       [[(''__key__'', ''s0''), (''jpg'', ''JFIF''), (''txt'', ''a dog'')],
        [(''__key__'', ''s2''), (''txt'', ''a bird'')]]"
proof -
  have h: "default_input_sampler [''shard-0.tar''] \<noteq> []"
    by (simp add: default_input_sampler_def)
  show ?thesis
    using h example_text_archive_created
      filter_before_decode[of True False "''jpg''" "''txt''" False
        "[(''__key__'', ''s2''), (''txt'', ''a bird'')]" default_input_sampler
        "[''shard-0.tar'']" example_world example_archives None]
      filter_before_decode[of True False "''jpg''" "''txt''" False
        "[(''__key__'', ''s1''), (''jpg'', ''JFIF'')]" default_input_sampler
        "[''shard-0.tar'']" example_world example_archives None]
    by (simp add: example_archives_def example_entries_def filter_dataset_def
        example_text_archive_def)
qed

lemma map_warn_and_continue_total:
  "(\<And>x. x \<in> set xs \<Longrightarrow> f x = Inr (g x)) \<Longrightarrow>
   fst (map_warn_and_continue f xs) =
     map (\<lambda>x. AList.update ''__key__'' (sample_get_key x) (g x)) xs"
  by (induction xs) (auto split: prod.splits sum.splits)

lemma preprocess_dataset_nothing_enabled:
  "preprocess_dataset w False False image_key caption_key False item = Inr []"
  by (simp add: preprocess_dataset_def preprocess_image_def preprocess_text_def
      preprocess_metadata_def)

subsection \<open>No modality enabled\<close>

text \<open>
  Claim C3, as amended. With no modality enabled, \<^verbatim>\<open>folder_to_keys\<close> raises
  \<^verbatim>\<open>TypeError\<close>, and so do the construction of the folder dataset and of the folder
  reader. \<^verbatim>\<open>create_webdataset\<close> does not look at the flags: it raises
  \<^verbatim>\<open>IndexError\<close> when the sampled list of locators is empty, as it does with any flags,
  and otherwise returns a dataset that calls \<^verbatim>\<open>preprocess_dataset\<close> on every entry of
  the archive stream and yields for each one a record that holds only the name of the
  entry under \<^verbatim>\<open>__key__\<close>.
\<close>

theorem no_modality_enabled:
  "folder_to_keys fo False False False = Inl TypeError \<and>
   ImageDataset_init fo False False False input_sampler = Inl TypeError \<and>
   FilesReader w stack input_sampler fo batch_size False False False = Inl TypeError \<and>
   create_webdataset w read_archives urls False False image_key caption_key False cache_path
     input_sampler' =
     (if input_sampler' urls = [] then Inl IndexError
      else Inr \<lparr>wds_call = \<lparr>wds_urls = input_sampler' urls, wds_cache_dir = cache_path,
                             wds_cache_size = 10 ^ 10\<rparr>,
                wds_samples =
                  map (\<lambda>item. [(''__key__'', sample_get_key item)])
                    (read_archives \<lparr>wds_urls = input_sampler' urls,
                       wds_cache_dir = cache_path, wds_cache_size = 10 ^ 10\<rparr>),
                wds_decoded =
                  read_archives \<lparr>wds_urls = input_sampler' urls, wds_cache_dir = cache_path,
                    wds_cache_size = 10 ^ 10\<rparr>\<rparr>)"
proof -
  have k: "folder_to_keys fo False False False = Inl TypeError"
    by (simp add: folder_to_keys_def)
  have f: "filter_dataset False False image_key caption_key False = (\<lambda>item. True)"
    by (simp add: filter_dataset_def fun_eq_iff)
  have "create_webdataset w read_archives urls False False image_key caption_key False
     cache_path input_sampler' =
     (if input_sampler' urls = [] then Inl IndexError
      else Inr \<lparr>wds_call = \<lparr>wds_urls = input_sampler' urls, wds_cache_dir = cache_path,
                             wds_cache_size = 10 ^ 10\<rparr>,
                wds_samples =
                  map (\<lambda>item. [(''__key__'', sample_get_key item)])
                    (read_archives \<lparr>wds_urls = input_sampler' urls,
                       wds_cache_dir = cache_path, wds_cache_size = 10 ^ 10\<rparr>),
                wds_decoded =
                  read_archives \<lparr>wds_urls = input_sampler' urls, wds_cache_dir = cache_path,
                    wds_cache_size = 10 ^ 10\<rparr>\<rparr>)"
    by (simp add: create_webdataset_def WebDataset_def Let_def select_def f
        map_warn_and_continue_snd
        map_warn_and_continue_total[where g = "\<lambda>item. []"]
        preprocess_dataset_nothing_enabled)
  then show ?thesis using k by (simp add: ImageDataset_init_def FilesReader_def)
qed

text \<open>
  Claim C3 as stated fails in archive mode: with no modality enabled the reader over an
  archive of three entries is built and yields a batch, the names of the three entries.
\<close>

theorem archive_without_modality_yields_batch:
  "WebdatasetReader example_world example_stack example_archives default_input_sampler
     [''shard-0.tar''] 4 False False False ''jpg'' ''txt'' None =
     Inr [Inr [(''__key__'', [Str ''s0'', Str ''s1'', Str ''s2''])]]"
  by (simp add: WebdatasetReader_def create_webdataset_def WebDataset_def Let_def select_def
      filter_dataset_def example_archives_def example_entries_def preprocess_dataset_def
      preprocess_image_def preprocess_text_def preprocess_metadata_def
      dataset_to_dataloader_def default_collate_def default_input_sampler_def
      sample_get_key_def example_stack_def)

subsection \<open>Batches with dropped records\<close>

text \<open>
  Claim C5. The claim asks, for a run of N records of which K are dropped, for a batch
  with N - K entries per field. For the run that consists of one dropped record the code
  produces no batch: \<^verbatim>\<open>collate_fn\<close> raises \<^verbatim>\<open>IndexError\<close>.
\<close>

theorem collate_fn_all_dropped: "collate_fn stack [None] = Inl IndexError"
  by (simp add: collate_fn_def default_collate_def)

text \<open>
  The same for every run of dropped records, and as the folder reader meets it: a folder
  with one corrupt image, read in batches of one.
\<close>

lemma collate_fn_only_dropped: "collate_fn stack (replicate n None) = Inl IndexError"
  by (simp add: collate_fn_def default_collate_def)

lemma FilesReader_corrupt_batch:
  "FilesReader example_world example_stack default_input_sampler
     \<lparr>root = ''data'', listing = [''b.jpg'']\<rparr> 1 False True False = Inr [Inl IndexError]"
  by code_simp

text \<open>
  When a record survives, and every survivor has the fields of the first one, each field
  of the batch is stacked from the values of the survivors in their order, N - K of them.
\<close>

lemma length_survivors:
  "length (survivors batch) = length batch - count_list batch None"
  unfolding survivors_def
proof (induction batch)
  case Nil
  then show ?case by simp
next
  case (Cons x batch)
  have "count_list batch None \<le> length batch" by (rule count_le_length)
  with Cons show ?case by (cases x) auto
qed

lemma filter_survivors:
  "filter (\<lambda>x. x \<noteq> None) batch = map Some (survivors batch)"
  unfolding survivors_def by (induction batch) auto

lemma column_survivors:
  "(\<And>d. d \<in> set ds \<Longrightarrow> key \<in> fst ` set d) \<Longrightarrow>
   column key (map Some ds) = Inr (map (\<lambda>d. the (map_of d key)) ds)"
proof (induction ds)
  case Nil
  then show ?case by simp
next
  case (Cons d ds)
  from Cons.prems[of d] obtain v where "map_of d key = Some v"
    by (cases "map_of d key") (auto simp: map_of_eq_None_iff)
  with Cons show ?case by simp
qed

lemma collate_fields_survivors:
  assumes "\<And>d key. d \<in> set ds \<Longrightarrow> key \<in> set keys \<Longrightarrow> key \<in> fst ` set d"
  shows "collate_fields (\<lambda>col. Inr (g col)) keys (map Some ds) =
           Inr (map (\<lambda>key. (key, g (map (\<lambda>d. the (map_of d key)) ds))) keys)"
  using assms
proof (induction keys)
  case Nil
  then show ?case by simp
next
  case (Cons key keys)
  have "column key (map Some ds) = Inr (map (\<lambda>d. the (map_of d key)) ds)"
    by (rule column_survivors) (simp add: Cons.prems)
  moreover have "collate_fields (\<lambda>col. Inr (g col)) keys (map Some ds) =
           Inr (map (\<lambda>key. (key, g (map (\<lambda>d. the (map_of d key)) ds))) keys)"
    by (rule Cons.IH) (simp add: Cons.prems)
  ultimately show ?case by simp
qed

lemma collate_fn_survivors:
  assumes "survivors batch = d0 # ds"
    and "\<And>d key. d \<in> set (d0 # ds) \<Longrightarrow> key \<in> fst ` set d0 \<Longrightarrow> key \<in> fst ` set d"
  shows "collate_fn (\<lambda>col. Inr (g col)) batch =
           Inr (map (\<lambda>key. (key, g (map (\<lambda>d. the (map_of d key)) (survivors batch))))
                  (map fst d0))"
proof -
  have "collate_fn (\<lambda>col. Inr (g col)) batch =
          collate_fields (\<lambda>col. Inr (g col)) (map fst d0) (map Some (d0 # ds))"
    unfolding collate_fn_def filter_survivors assms(1) by (simp add: default_collate_def)
  also have "\<dots> = Inr (map (\<lambda>key. (key, g (map (\<lambda>d. the (map_of d key)) (d0 # ds))))
                  (map fst d0))"
    by (rule collate_fields_survivors) (use assms(2) in auto)
  finally show ?thesis by (simp add: assms(1))
qed

end
